theory Spec2Isabelle
  imports Main
begin

section \<open>JavaScript values and strings\<close>

text \<open>
  The backend is JavaScript. A JavaScript string is a sequence of UTF-16 code units; the
  model covers the code units 0 to 255 (Latin-1), one \<^typ>\<open>char\<close> each, and gives
  \<open>toLowerCase\<close> and \<open>trim\<close> their ECMAScript meaning on that range. A value that
  may be \<open>undefined\<close> is an option, \<open>None\<close> being \<open>undefined\<close>.
\<close>

datatype jsval =
    JUndefined
  | JNull
  | JBool bool
  | JNum int
  | JStr string
  | JObj string \<comment> \<open>any object, array or function, by name\<close>

fun truthy :: "jsval \<Rightarrow> bool" where
  "truthy JUndefined = False"
| "truthy JNull = False"
| "truthy (JBool b) = b"
| "truthy (JNum n) = (n \<noteq> 0)"
| "truthy (JStr s) = (s \<noteq> [])"
| "truthy (JObj n) = True"

fun typeof :: "jsval \<Rightarrow> string" where
  "typeof JUndefined = ''undefined''"
| "typeof JNull = ''object''"
| "typeof (JBool b) = ''boolean''"
| "typeof (JNum n) = ''number''"
| "typeof (JStr s) = ''string''"
| "typeof (JObj n) = ''object''"

text \<open>Truthiness of a value that is a string or \<open>undefined\<close>.\<close>

definition truthy_str :: "string option \<Rightarrow> bool" where
  "truthy_str v = (case v of None \<Rightarrow> False | Some s \<Rightarrow> s \<noteq> [])"

text \<open>What a template literal or \<open>+\<close> makes of a string that may be \<open>undefined\<close>.\<close>

definition to_string :: "string option \<Rightarrow> string" where
  "to_string v = (case v of None \<Rightarrow> ''undefined'' | Some s \<Rightarrow> s)"

definition to_jsval :: "string option \<Rightarrow> jsval" where
  "to_jsval v = (case v of None \<Rightarrow> JUndefined | Some s \<Rightarrow> JStr s)"

text \<open>
  ECMAScript white space and line terminators below U+0100: TAB, LF, VT, FF, CR, SP, NBSP.
\<close>

definition js_whitespace :: "char \<Rightarrow> bool" where
  "js_whitespace c = (of_char c \<in> {9, 10, 11, 12, 13, 32, 160 :: nat})"

definition js_trim :: "string \<Rightarrow> string" where
  "js_trim s = rev (dropWhile js_whitespace (rev (dropWhile js_whitespace s)))"

text \<open>The upper-case letters below U+0100 are A-Z, U+00C0-U+00D6 and U+00D8-U+00DE.\<close>

definition lower_char :: "char \<Rightarrow> char" where
  "lower_char c =
     (let n = (of_char c :: nat)
      in if (65 \<le> n \<and> n \<le> 90) \<or> (192 \<le> n \<and> n \<le> 214) \<or> (216 \<le> n \<and> n \<le> 222)
         then char_of (n + 32) else c)"

definition toLowerCase :: "string \<Rightarrow> string" where
  "toLowerCase s = map lower_char s"

text \<open>\<open>s.split(',')[0]\<close>: the part of \<open>s\<close> before its first comma, all of it if there is none.\<close>

definition split_comma_first :: "string \<Rightarrow> string" where
  "split_comma_first s = takeWhile (\<lambda>c. c \<noteq> CHR '','') s"

text \<open>\<open>Array.prototype.join\<close> on an array of strings.\<close>

fun join :: "string \<Rightarrow> string list \<Rightarrow> string" where
  "join sep [] = []"
| "join sep [x] = x"
| "join sep (x # y # ys) = x @ sep @ join sep (y # ys)"

section \<open>Art generation: \<open>generateArtFromAPI\<close> (routes/artRoutes.js)\<close>

subsection \<open>Configuration, external services, effects\<close>

text \<open>
  \<open>ART_API_URL\<close> and \<open>ART_API_TOKEN\<close> are read from the process environment, the other
  three from \<open>cloudinary.config()\<close>.
\<close>

record config =
  ART_API_URL :: "string option"
  ART_API_TOKEN :: "string option"
  cloud_name :: "string option"
  api_key :: "string option"
  api_secret :: "string option"

text \<open>
  What the catch block reads of a thrown error: \<open>error.response.status\<close> (\<open>None\<close> when
  the error has no response) and \<open>error.code\<close>.
\<close>

record js_error =
  err_status :: "nat option"
  err_code :: "string option"

record http_response =
  content_type :: "string option" \<comment> \<open>\<open>response.headers['content-type']\<close>\<close>
  resp_data :: "char list" \<comment> \<open>\<open>response.data\<close>, the bytes of the image\<close>

text \<open>
  The two remote services are functions of the request that was sent: the generation
  provider (url, \<open>inputs\<close>, Authorization header) and the upload provider (data URI,
  folder, tags). Each answers or throws.
\<close>

type_synonym object_id = nat

text \<open>\<open>decoded.user\<close> of a verified token, with its \<open>id\<close>.\<close>

datatype jwt_user = JwtUser "object_id option"

text \<open>
  The libraries and the clock are fields of the same record: \<open>jwt.verify\<close> with the
  process secret (it returns \<open>decoded.user\<close> or throws an error of some \<open>name\<close>),
  \<open>User.findOne({ email })\<close> (the \<open>id\<close> of the user found), the cast Mongoose applies
  to an object given for a String path (the string, or the message of its CastError),
  the cast Mongoose applies to the text of an id (the ObjectId, or \<open>None\<close> when the
  text is not a well-formed id and the cast throws), and \<open>Date.now\<close>.
\<close>

record world =
  axios_post :: "string \<Rightarrow> string \<Rightarrow> string \<Rightarrow> js_error + http_response"
  cloudinary_upload :: "string \<Rightarrow> string \<Rightarrow> string list \<Rightarrow> js_error + string"
  jwt_verify :: "string \<Rightarrow> string + jwt_user option"
  User_findOne :: "string \<Rightarrow> object_id option"
  castString_object :: "string \<Rightarrow> string + string"
  castObjectId :: "string \<Rightarrow> object_id option"
  Date_now :: nat

text \<open>The effects of a call, in the order they happen. Console output is left out.\<close>

datatype event =
    SetTimeout nat
  | AxiosPost string string string
  | CloudinaryUpload string string "string list"

datatype gen_error =
    InvalidPrompt
  | AuthFailure
  | RateLimited
  | ConnectivityFailure
  | GenerationFailure

fun message :: "gen_error \<Rightarrow> string" where
  "message InvalidPrompt = ''Art generation prompt cannot be empty or invalid.''"
| "message AuthFailure = ''AI API authentication failed. Check your ART_API_TOKEN.''"
| "message RateLimited = ''AI API rate limit exceeded. Please try again later.''"
| "message ConnectivityFailure =
     ''Could not connect to AI API. Check ART_API_URL or your internet connection.''"
| "message GenerationFailure =
     ''Failed to generate art from external service or upload image.''"

subsection \<open>The mock branch\<close>

definition mockImageUrls :: "(string \<times> string) list" where
  "mockImageUrls =
     [(''happy'', ''https://placehold.co/600x450/FFD700/000000?text=Happy+Art''),
      (''sad'', ''https://placehold.co/600x450/87CEEB/FFFFFF?text=Sad+Art''),
      (''calm'', ''https://placehold.co/600x450/90EE90/000000?text=Calm+Art''),
      (''excited'', ''https://placehold.co/600x450/FF6347/FFFFFF?text=Excited+Art''),
      (''angry'', ''https://placehold.co/600x450/DC143C/FFFFFF?text=Angry+Art''),
      (''inspired'', ''https://placehold.co/600x450/BA55D3/FFFFFF?text=Inspired+Art''),
      (''mixed'', ''https://placehold.co/600x450/CCCCCC/000000?text=Mixed+Art''),
      (''default'', ''https://placehold.co/600x450/A9A9A9/FFFFFF?text=Generated+Art'')]"

text \<open>
  \<open>mockImageUrls\<close> is an object literal, so \<open>mockImageUrls[k]\<close> finds the properties
  the literal lists and then the ones every object inherits from \<open>Object.prototype\<close>.
  The inherited ones are functions, or (for \<open>__proto__\<close>) the prototype object: truthy,
  and not strings.
\<close>

definition object_prototype_members :: "string list" where
  "object_prototype_members =
     [''constructor'', ''__proto__'', ''hasOwnProperty'', ''isPrototypeOf'',
      ''propertyIsEnumerable'', ''toLocaleString'', ''toString'', ''valueOf'',
      ''__defineGetter__'', ''__defineSetter__'', ''__lookupGetter__'', ''__lookupSetter__'']"

text \<open>What the function returns: a URL string, or an inherited member of the table.\<close>

datatype image_ref = Url string | Inherited string

definition mockImageUrls_get :: "string \<Rightarrow> image_ref option" where
  "mockImageUrls_get k =
     (case map_of mockImageUrls k of
        Some u \<Rightarrow> Some (Url u)
      | None \<Rightarrow> if k \<in> set object_prototype_members then Some (Inherited k) else None)"

definition cleanedPrompt :: "string \<Rightarrow> string" where
  "cleanedPrompt prompt = js_trim (split_comma_first (toLowerCase prompt))"

text \<open>
  \<open>mockImageUrls[cleanedPrompt] || mockImageUrls['default']\<close>; every entry of the table
  is a non-empty string, so the right operand is taken only when the lookup is undefined.
\<close>

definition generatedImageUrl :: "string \<Rightarrow> image_ref" where
  "generatedImageUrl prompt =
     (case mockImageUrls_get (cleanedPrompt prompt) of
        Some v \<Rightarrow> v
      | None \<Rightarrow> Url ''https://placehold.co/600x450/A9A9A9/FFFFFF?text=Generated+Art'')"

subsection \<open>The real branch\<close>

text \<open>\<open>Buffer.toString('base64')\<close>: RFC 4648 with padding.\<close>

definition base64_digit :: "nat \<Rightarrow> char" where
  "base64_digit n =
     ''ABCDEFGHIJKLMNOPQRSTUVWXYZabcdefghijklmnopqrstuvwxyz0123456789+/'' ! (n mod 64)"

fun base64_bytes :: "nat list \<Rightarrow> string" where
  "base64_bytes [] = []"
| "base64_bytes [a] =
     [base64_digit (a div 4), base64_digit ((a mod 4) * 16), CHR ''='', CHR ''='']"
| "base64_bytes [a, b] =
     [base64_digit (a div 4), base64_digit ((a mod 4) * 16 + b div 16),
      base64_digit ((b mod 16) * 4), CHR ''='']"
| "base64_bytes (a # b # c # bs) =
     [base64_digit (a div 4), base64_digit ((a mod 4) * 16 + b div 16),
      base64_digit ((b mod 16) * 4 + c div 64), base64_digit (c mod 64)] @ base64_bytes bs"

definition base64 :: "char list \<Rightarrow> string" where
  "base64 bs = base64_bytes (map of_char bs)"

definition dataURI :: "http_response \<Rightarrow> string" where
  "dataURI response =
     (let contentType = (if truthy_str (content_type response)
                         then to_string (content_type response) else ''image/png'')
      in ''data:'' @ contentType @ '';base64,'' @ base64 (resp_data response))"

text \<open>The catch block: one classification for whatever the try block threw.\<close>

definition classify :: "js_error \<Rightarrow> gen_error" where
  "classify error =
     (if err_status error = Some 401 then AuthFailure
      else if err_status error = Some 429 then RateLimited
      else if err_code error = Some ''ECONNREFUSED'' \<or> err_code error = Some ''ENOTFOUND''
           then ConnectivityFailure
      else GenerationFailure)"

definition upload_tags :: "string \<Rightarrow> string list" where
  "upload_tags prompt = [cleanedPrompt prompt, ''mood_art'']"

definition authorization :: "config \<Rightarrow> string" where
  "authorization cfg = ''Bearer '' @ to_string (ART_API_TOKEN cfg)"

definition real_generation ::
  "config \<Rightarrow> world \<Rightarrow> string \<Rightarrow> (gen_error + image_ref) \<times> event list" where
  "real_generation cfg w prompt =
     (let url = to_string (ART_API_URL cfg);
          posted = AxiosPost url prompt (authorization cfg)
      in case axios_post w url prompt (authorization cfg) of
           Inl error \<Rightarrow> (Inl (classify error), [posted])
         | Inr response \<Rightarrow>
             (let uri = dataURI response;
                  uploaded = CloudinaryUpload uri ''mood_art_generator'' (upload_tags prompt)
              in case cloudinary_upload w uri ''mood_art_generator'' (upload_tags prompt) of
                   Inl error \<Rightarrow> (Inl (classify error), [posted, uploaded])
                 | Inr secure_url \<Rightarrow> (Inr (Url secure_url), [posted, uploaded])))"

subsection \<open>The function\<close>

definition invalid_prompt :: "jsval \<Rightarrow> bool" where
  "invalid_prompt prompt =
     (\<not> truthy prompt \<or> typeof prompt \<noteq> ''string'' \<or>
      (case prompt of JStr s \<Rightarrow> js_trim s = [] | _ \<Rightarrow> False))"

definition mock_mode :: "config \<Rightarrow> bool" where
  "mock_mode cfg =
     (\<not> truthy_str (ART_API_URL cfg) \<or> \<not> truthy_str (ART_API_TOKEN cfg) \<or>
      \<not> truthy_str (cloud_name cfg) \<or> \<not> truthy_str (api_key cfg) \<or>
      \<not> truthy_str (api_secret cfg))"

definition generateArtFromAPI ::
  "config \<Rightarrow> world \<Rightarrow> jsval \<Rightarrow> (gen_error + image_ref) \<times> event list" where
  "generateArtFromAPI cfg w prompt =
     (if invalid_prompt prompt then (Inl InvalidPrompt, [])
      else case prompt of
             JStr p \<Rightarrow>
               if mock_mode cfg then (Inr (generatedImageUrl p), [SetTimeout 3000])
               else real_generation cfg w p
           | _ \<Rightarrow> (Inl InvalidPrompt, []))"

section \<open>The Art model (models/Art.js)\<close>

text \<open>
  A stored document. \<open>votes\<close> is a JavaScript Number that holds an integer (it starts
  at 0 and only \<open>+= 1\<close> changes it), \<open>createdAt\<close> a time stamp. The collection is the
  list of its documents in the order they were inserted; no store operation fails for a
  reason of the database itself.
\<close>

record art =
  art_id :: object_id
  userId :: "object_id option"
  mood :: string
  imageUrl :: string
  prompt :: string
  style :: string
  colors :: "string list"
  votes :: int
  collaborators :: "object_id list"
  createdAt :: nat

definition mood_values :: "string list" where
  "mood_values = [''Happy'', ''Sad'', ''Calm'', ''Excited'', ''Angry'', ''Inspired'', ''Mixed'']"

definition fresh_id :: "art list \<Rightarrow> object_id" where
  "fresh_id arts = fold (\<lambda>a m. max (Suc (art_id a)) m) arts 0"

text \<open>
  \<open>new Art({...})\<close>: the \<open>trim\<close> setters of \<open>mood\<close> and \<open>prompt\<close> run, and a path that
  is undefined takes its default.
\<close>

definition new_Art ::
  "world \<Rightarrow> object_id \<Rightarrow> object_id option \<Rightarrow> string \<Rightarrow> string \<Rightarrow> string option \<Rightarrow>
   string option \<Rightarrow> string list option \<Rightarrow> object_id list \<Rightarrow> art" where
  "new_Art w i uid m url p st cs collabs =
     \<lparr>art_id = i, userId = uid, mood = js_trim m, imageUrl = url,
      prompt = (case p of None \<Rightarrow> [] | Some s \<Rightarrow> js_trim s),
      style = (case st of None \<Rightarrow> ''Abstract'' | Some s \<Rightarrow> s),
      colors = (case cs of None \<Rightarrow> [] | Some c \<Rightarrow> c),
      votes = 0, collaborators = collabs, createdAt = Date_now w\<rparr>"

definition cast_imageUrl :: "world \<Rightarrow> image_ref \<Rightarrow> string + string" where
  "cast_imageUrl w v = (case v of Url s \<Rightarrow> Inr s | Inherited k \<Rightarrow> castString_object w k)"

text \<open>
  The validators of the schema, as (path, message) pairs: \<open>mood\<close> is required and in the
  enum, \<open>imageUrl\<close> is required; a failed cast is reported for its path.
\<close>

definition mood_errors :: "string \<Rightarrow> (string \<times> string) list" where
  "mood_errors m =
     (if m = [] then [(''mood'', ''Mood is required'')]
      else if m \<notin> set mood_values
        then [(''mood'',
               ''Mood must be one of: Happy, Sad, Calm, Excited, Angry, Inspired, Mixed'')]
      else [])"

definition imageUrl_errors :: "string + string \<Rightarrow> (string \<times> string) list" where
  "imageUrl_errors v =
     (case v of
        Inl castError \<Rightarrow> [(''imageUrl'', castError)]
      | Inr url \<Rightarrow> if url = [] then [(''imageUrl'', ''Image URL is required'')] else [])"

text \<open>
  A failed cast is recorded when the document is constructed, before the validators run,
  so it comes first among the errors.
\<close>

definition validate :: "art \<Rightarrow> string + string \<Rightarrow> (string \<times> string) list" where
  "validate a img =
     (case img of
        Inl castError \<Rightarrow> imageUrl_errors img @ mood_errors (mood a)
      | Inr url \<Rightarrow> mood_errors (mood a) @ imageUrl_errors img)"

text \<open>\<open>save()\<close> of a new document.\<close>

definition save_new ::
  "art \<Rightarrow> string + string \<Rightarrow> art list \<Rightarrow> (string \<times> string) list + art list" where
  "save_new a img arts =
     (if validate a img = [] then Inr (arts @ [a]) else Inl (validate a img))"

definition findById :: "art list \<Rightarrow> object_id \<Rightarrow> art option" where
  "findById arts i = find (\<lambda>a. art_id a = i) arts"

text \<open>
  \<open>Art.findById(req.params.id)\<close>: the text of the id is cast first, and the call throws
  a CastError when it is not a well-formed id.
\<close>

datatype find_error = CastError

definition Art_findById :: "world \<Rightarrow> art list \<Rightarrow> string \<Rightarrow> find_error + art option" where
  "Art_findById w arts s =
     (case castObjectId w s of None \<Rightarrow> Inl CastError | Some i \<Rightarrow> Inr (findById arts i))"

text \<open>
  \<open>save()\<close> of a document that was read from the collection and whose \<open>votes\<close> was
  changed in memory: the document in memory is validated, then the one modified path is
  written to the stored document of that id (\<open>$set\<close>), and the call throws when there
  is none.
\<close>

fun set_votes :: "object_id \<Rightarrow> int \<Rightarrow> art list \<Rightarrow> art list" where
  "set_votes i v [] = []"
| "set_votes i v (b # bs) =
     (if art_id b = i then b\<lparr>votes := v\<rparr> # bs else b # set_votes i v bs)"

datatype save_error = ValidationError "(string \<times> string) list" | DocumentNotFoundError

definition save_existing :: "art \<Rightarrow> art list \<Rightarrow> save_error + art list" where
  "save_existing a arts =
     (if validate a (Inr (imageUrl a)) \<noteq> [] then Inl (ValidationError (validate a (Inr (imageUrl a))))
      else if findById arts (art_id a) = None then Inl DocumentNotFoundError
      else Inr (set_votes (art_id a) (votes a) arts))"

text \<open>
  \<open>votes += 1\<close> on a Number that holds an integer: the sum is exact from \<open>-2^53\<close> up to
  \<open>2^53 - 1\<close>. Beyond, the doubles are 2 apart up to \<open>2^54\<close> and the sum lies halfway
  between two of them (it is rounded to the one whose significand is even), and further
  out the sum is rounded back to the number itself.
\<close>

definition js_plus_one :: "int \<Rightarrow> int" where
  "js_plus_one v =
     (if - 9007199254740992 \<le> v \<and> v < 9007199254740992 then v + 1
      else if ((9007199254740992 \<le> v \<and> v < 18014398509481984) \<or>
               (- 18014398509481984 \<le> v \<and> v < - 9007199254740992)) \<and>
              (v div 2) mod 2 = 1
        then v + 2
      else v)"

text \<open>The message of a Mongoose ValidationError.\<close>

definition validation_message :: "(string \<times> string) list \<Rightarrow> string" where
  "validation_message errors =
     ''Art validation failed: '' @ join '', '' (map (\<lambda>(path, msg). path @ '': '' @ msg) errors)"

section \<open>Authentication middleware\<close>

datatype json = Msg string | ArtJson art | ArtsJson "art list"

record response =
  status :: nat
  body :: json

text \<open>A middleware calls \<open>next()\<close>, with \<open>req.user\<close> set or not, or answers itself.\<close>

datatype mw_result = Next "jwt_user option" | Respond response

text \<open>\<open>optionalAuth\<close> of routes/artRoutes.js; the token is the header \<open>x-auth-token\<close>.\<close>

definition optionalAuth :: "world \<Rightarrow> string option \<Rightarrow> mw_result" where
  "optionalAuth w token =
     (if truthy_str token
      then (case jwt_verify w (to_string token) of
              Inr user \<Rightarrow> Next user
            | Inl err_name \<Rightarrow> Next None)
      else Next None)"

text \<open>middleware/auth.js.\<close>

definition auth :: "world \<Rightarrow> string option \<Rightarrow> mw_result" where
  "auth w token =
     (if \<not> truthy_str token
      then Respond \<lparr>status = 401,
             body = Msg ''No authentication token provided. Authorization denied.''\<rparr>
      else case jwt_verify w (to_string token) of
             Inr user \<Rightarrow> Next user
           | Inl err_name \<Rightarrow>
               if err_name = ''TokenExpiredError''
               then Respond \<lparr>status = 401,
                      body = Msg ''Authentication token has expired. Please log in again.''\<rparr>
               else if err_name = ''JsonWebTokenError''
               then Respond \<lparr>status = 401,
                      body = Msg ''Invalid authentication token. Authorization denied.''\<rparr>
               else Respond \<lparr>status = 500,
                      body = Msg ''Server error during token verification.''\<rparr>)"

text \<open>\<open>req.user ? req.user.id : null\<close>.\<close>

definition userId_of :: "jwt_user option \<Rightarrow> object_id option" where
  "userId_of user = (case user of None \<Rightarrow> None | Some (JwtUser i) \<Rightarrow> i)"

section \<open>The art routes (routes/artRoutes.js)\<close>

text \<open>
  A handler takes the collection and returns its response, the collection afterwards and
  the effects of the generation call. The fields of a request body are typed as the
  schema types them: strings and a list of strings, each of which may be missing.
\<close>

type_synonym outcome = "response \<times> art list \<times> event list"

record art_body =
  req_mood :: "string option"
  req_prompt :: "string option"
  req_style :: "string option"
  req_colors :: "string list option"

record collab_body =
  mood1 :: "string option"
  mood2 :: "string option"
  partnerEmail :: "string option"

subsection \<open>POST /api/art\<close>

text \<open>
  The prompt sent to the generator. \<open>artPrompt\<close> starts as \<open>mood\<close>, which may be
  undefined, and \<open>+=\<close> on an undefined value appends to the text \<open>undefined\<close>.
\<close>

definition artPrompt :: "art_body \<Rightarrow> string option" where
  "artPrompt b =
     (let a0 = req_mood b;
          a1 = (if truthy_str (req_prompt b)
                then Some ((if truthy_str (req_mood b) then to_string (req_mood b) @ '', ''
                            else []) @ to_string (req_prompt b))
                else a0);
          a2 = (if truthy_str (req_style b)
                then Some (to_string a1 @ '', in '' @ to_string (req_style b) @ '' style'')
                else a1)
      in case req_colors b of
           None \<Rightarrow> a2
         | Some cs \<Rightarrow>
             if length cs > 0 then Some (to_string a2 @ '', with colors '' @ join '', '' cs)
             else a2)"

definition post_art :: "config \<Rightarrow> world \<Rightarrow> jwt_user option \<Rightarrow> art_body \<Rightarrow> art list \<Rightarrow> outcome" where
  "post_art cfg w user b arts =
     (let uid = userId_of user;
          (result, events) = generateArtFromAPI cfg w (to_jsval (artPrompt b))
      in case result of
           Inl err \<Rightarrow> (\<lparr>status = 500, body = Msg (message err)\<rparr>, arts, events)
         | Inr generated \<Rightarrow>
             (let casted = cast_imageUrl w generated;
                  newArt = new_Art w (fresh_id arts) uid
                             (if truthy_str (req_mood b) then to_string (req_mood b)
                              else ''Mixed'')
                             (case casted of Inl castError \<Rightarrow> [] | Inr url \<Rightarrow> url)
                             (req_prompt b) (req_style b) (req_colors b) []
              in case save_new newArt casted arts of
                   Inl errors \<Rightarrow>
                     (\<lparr>status = 400, body = Msg (join '', '' (map snd errors))\<rparr>, arts, events)
                 | Inr arts' \<Rightarrow> (\<lparr>status = 201, body = ArtJson newArt\<rparr>, arts', events)))"

subsection \<open>GET /api/art/history and GET /api/art/evolution/:mood\<close>

text \<open>The order of documents with the same \<open>createdAt\<close> is the store's choice.\<close>

definition get_history :: "jwt_user option \<Rightarrow> art list \<Rightarrow> outcome" where
  "get_history user arts =
     (let userArt = (case userId_of user of
                       None \<Rightarrow> []
                     | Some uid \<Rightarrow>
                         rev (sort_key createdAt (filter (\<lambda>a. userId a = Some uid) arts)))
      in (\<lparr>status = 200, body = ArtsJson userArt\<rparr>, arts, []))"

definition get_evolution :: "jwt_user option \<Rightarrow> string \<Rightarrow> art list \<Rightarrow> outcome" where
  "get_evolution user m arts =
     (let artEvolution =
            (case userId_of user of
               None \<Rightarrow> []
             | Some uid \<Rightarrow>
                 sort_key createdAt (filter (\<lambda>a. userId a = Some uid \<and> mood a = m) arts))
      in (\<lparr>status = 200, body = ArtsJson artEvolution\<rparr>, arts, []))"

subsection \<open>POST /api/art/:id/vote\<close>

text \<open>
  The handler stops twice: at \<open>await Art.findById\<close> and at \<open>await art.save()\<close>. Up to
  the first it has either answered, or it holds the document it read. From there it adds
  one to \<open>votes\<close> of the document it holds, saves it and answers with it. Other requests
  may be served between the two parts; \<open>post_vote\<close> is the handler when none is.
\<close>

datatype vote_read = VoteAnswered response | VoteHolds art

definition vote_find :: "world \<Rightarrow> string \<Rightarrow> art list \<Rightarrow> vote_read" where
  "vote_find w s arts =
     (case Art_findById w arts s of
        Inl err \<Rightarrow> VoteAnswered \<lparr>status = 500, body = Msg ''Server error processing vote.''\<rparr>
      | Inr None \<Rightarrow> VoteAnswered \<lparr>status = 404, body = Msg ''Art piece not found.''\<rparr>
      | Inr (Some a) \<Rightarrow> VoteHolds a)"

definition vote_save :: "art \<Rightarrow> art list \<Rightarrow> outcome" where
  "vote_save a arts =
     (let voted = a\<lparr>votes := js_plus_one (votes a)\<rparr>
      in case save_existing voted arts of
           Inl err \<Rightarrow>
             (\<lparr>status = 500, body = Msg ''Server error processing vote.''\<rparr>, arts, [])
         | Inr arts' \<Rightarrow> (\<lparr>status = 200, body = ArtJson voted\<rparr>, arts', []))"

definition post_vote :: "world \<Rightarrow> string \<Rightarrow> art list \<Rightarrow> outcome" where
  "post_vote w s arts =
     (case vote_find w s arts of
        VoteAnswered r \<Rightarrow> (r, arts, [])
      | VoteHolds a \<Rightarrow> vote_save a arts)"

subsection \<open>POST /api/art/collaborate\<close>

definition collab_prompt :: "string \<Rightarrow> string \<Rightarrow> string" where
  "collab_prompt m1 m2 = ''Collaborative art blending '' @ m1 @ '' and '' @ m2"

text \<open>\<open>[...new Set(xs)]\<close> keeps the first occurrence of each element.\<close>

definition unique :: "'a list \<Rightarrow> 'a list" where
  "unique xs = rev (remdups (rev xs))"

definition post_collaborate ::
  "config \<Rightarrow> world \<Rightarrow> jwt_user option \<Rightarrow> collab_body \<Rightarrow> art list \<Rightarrow> outcome" where
  "post_collaborate cfg w user b arts =
     (let uid = userId_of user
      in if \<not> truthy_str (mood1 b) \<or> \<not> truthy_str (mood2 b)
         then (\<lparr>status = 400, body = Msg ''Both moods are required for collaboration.''\<rparr>,
               arts, [])
         else
           (let partnerUserId = (if truthy_str (partnerEmail b)
                                 then User_findOne w (to_string (partnerEmail b)) else None);
                m1 = to_string (mood1 b);
                m2 = to_string (mood2 b);
                (result, events) = generateArtFromAPI cfg w (JStr (collab_prompt m1 m2))
            in case result of
                 Inl err \<Rightarrow> (\<lparr>status = 500, body = Msg (message err)\<rparr>, arts, events)
               | Inr generated \<Rightarrow>
                   (let cs = (case uid of None \<Rightarrow> [] | Some u \<Rightarrow> [u]) @
                             (case partnerUserId of
                                None \<Rightarrow> []
                              | Some p \<Rightarrow> if Some p \<noteq> uid then [p] else []);
                        casted = cast_imageUrl w generated;
                        newArt = new_Art w (fresh_id arts) uid (m1 @ '' & '' @ m2)
                                   (case casted of Inl castError \<Rightarrow> [] | Inr url \<Rightarrow> url)
                                   (Some (collab_prompt m1 m2)) None None (unique cs)
                    in case save_new newArt casted arts of
                         Inl errors \<Rightarrow>
                           (\<lparr>status = 500, body = Msg (validation_message errors)\<rparr>,
                            arts, events)
                       | Inr arts' \<Rightarrow>
                           (\<lparr>status = 201, body = ArtJson newArt\<rparr>, arts', events))))"

subsection \<open>The router\<close>

text \<open>
  The five routes, each behind \<open>optionalAuth\<close>. The Art collection is used by this
  router only.
\<close>

datatype operation =
    PostArt art_body
  | GetHistory
  | PostVote string
  | GetEvolution string
  | PostCollaborate collab_body

record request =
  token :: "string option"
  operation :: operation

definition handle :: "config \<Rightarrow> world \<Rightarrow> jwt_user option \<Rightarrow> operation \<Rightarrow> art list \<Rightarrow> outcome" where
  "handle cfg w user opn arts =
     (case opn of
        PostArt b \<Rightarrow> post_art cfg w user b arts
      | GetHistory \<Rightarrow> get_history user arts
      | PostVote s \<Rightarrow> post_vote w s arts
      | GetEvolution m \<Rightarrow> get_evolution user m arts
      | PostCollaborate b \<Rightarrow> post_collaborate cfg w user b arts)"

definition router :: "config \<Rightarrow> world \<Rightarrow> request \<Rightarrow> art list \<Rightarrow> outcome" where
  "router cfg w req arts =
     (case optionalAuth w (token req) of
        Next user \<Rightarrow> handle cfg w user (operation req) arts
      | Respond r \<Rightarrow> (r, arts, []))"

text \<open>The parts of an outcome.\<close>

definition response_of :: "outcome \<Rightarrow> response" where
  "response_of out = fst out"

definition collection_after :: "outcome \<Rightarrow> art list" where
  "collection_after out = fst (snd out)"

subsection \<open>Requests served at the same time\<close>





section \<open>The composition rules as the spec words them\<close>

text \<open>
  Section 4.1 of the spec, for comparison with \<open>artPrompt\<close>: the mood and the prompt
  joined by a comma when both are present, else the one that is present; then the style
  clause; then the colour clause. A field that is absent contributes no text.
\<close>

definition present :: "string option \<Rightarrow> bool" where
  "present v = (v \<noteq> None \<and> v \<noteq> Some [])"

definition text_of :: "string option \<Rightarrow> string" where
  "text_of v = (case v of None \<Rightarrow> [] | Some s \<Rightarrow> s)"

definition composed_prompt_spec :: "art_body \<Rightarrow> string" where
  "composed_prompt_spec b =
     (if present (req_prompt b)
      then (if present (req_mood b) then text_of (req_mood b) @ '', '' @ text_of (req_prompt b)
            else text_of (req_prompt b))
      else text_of (req_mood b))
     @ (if present (req_style b) then '', in '' @ text_of (req_style b) @ '' style'' else [])
     @ (case req_colors b of
          None \<Rightarrow> []
        | Some cs \<Rightarrow> if cs \<noteq> [] then '', with colors '' @ join '', '' cs else [])"

section \<open>What a request writes\<close>

text \<open>
  The three things a request can do to the collection: nothing, the insertion of one
  document whose mood is in the enum, or one more vote on a document that is there.
\<close>

definition written :: "art list \<Rightarrow> art list \<Rightarrow> bool" where
  "written arts arts' =
     (arts' = arts \<or>
      (\<exists>n. mood n \<in> set mood_values \<and> arts' = arts @ [n]) \<or>
      (\<exists>b. findById arts (art_id b) = Some b \<and> mood b \<in> set mood_values \<and>
           arts' = set_votes (art_id b) (js_plus_one (votes b)) arts))"

section \<open>Example environments\<close>

text \<open>Concrete configurations and worlds, on which the theorems below are instantiated.\<close>

definition no_config :: config where
  "no_config = \<lparr>ART_API_URL = None, ART_API_TOKEN = None, cloud_name = None,
                 api_key = None, api_secret = None\<rparr>"

definition full_config :: config where
  "full_config = \<lparr>ART_API_URL = Some ''https://models.example/generate'',
                   ART_API_TOKEN = Some ''t0ken'', cloud_name = Some ''cloud'',
                   api_key = Some ''key'', api_secret = Some ''secret''\<rparr>"

text \<open>An id cast that takes the 24 hexadecimal digits of an ObjectId and nothing else.\<close>

definition hex_digit :: "char \<Rightarrow> nat option" where
  "hex_digit c =
     (let n = (of_char c :: nat)
      in if 48 \<le> n \<and> n \<le> 57 then Some (n - 48)
         else if 97 \<le> n \<and> n \<le> 102 then Some (n - 87)
         else if 65 \<le> n \<and> n \<le> 70 then Some (n - 55)
         else None)"

fun hex_value :: "nat \<Rightarrow> string \<Rightarrow> nat option" where
  "hex_value acc [] = Some acc"
| "hex_value acc (c # cs) =
     (case hex_digit c of None \<Rightarrow> None | Some d \<Rightarrow> hex_value (16 * acc + d) cs)"

definition hex_objectId :: "string \<Rightarrow> object_id option" where
  "hex_objectId s = (if length s = 24 then hex_value 0 s else None)"

text \<open>A world in which both remote services throw the given error and no token verifies.\<close>

definition refusing :: "js_error \<Rightarrow> world" where
  "refusing e = \<lparr>axios_post = (\<lambda>url inputs a. Inl e),
                 cloudinary_upload = (\<lambda>uri folder tags. Inl e),
                 jwt_verify = (\<lambda>t. Inl ''JsonWebTokenError''),
                 User_findOne = (\<lambda>email. None),
                 castString_object = (\<lambda>k. Inl ''Cast to string failed''),
                 castObjectId = hex_objectId,
                 Date_now = 0\<rparr>"

text \<open>A world in which generation answers three bytes and the upload throws.\<close>

definition upload_refusing :: "js_error \<Rightarrow> world" where
  "upload_refusing e =
     (refusing e)\<lparr>axios_post := (\<lambda>url inputs a. Inr \<lparr>content_type = None, resp_data = ''Man''\<rparr>)\<rparr>"

text \<open>A world whose remote services answer 401, and one whose tokens have expired.\<close>

definition unauthorized :: world where
  "unauthorized = refusing \<lparr>err_status = Some 401, err_code = None\<rparr>"

definition expired_world :: world where
  "expired_world =
     (refusing \<lparr>err_status = None, err_code = None\<rparr>)
       \<lparr>jwt_verify := (\<lambda>t. Inl ''TokenExpiredError'')\<rparr>"

text \<open>
  A world in which Mongoose casts the \<open>Object\<close> function, given for a String path, to the
  text that the function's own \<open>toString\<close> returns.
\<close>

definition stringifying :: world where
  "stringifying =
     (refusing \<lparr>err_status = None, err_code = None\<rparr>)
       \<lparr>castString_object :=
          (\<lambda>k. if k = ''constructor'' then Inr ''function Object() { [native code] }''
                else Inl ''Cast to string failed'')\<rparr>"



text \<open>
  Request bodies, and the documents the main route makes of them in an empty collection
  when nothing is configured.
\<close>

definition happy_body :: art_body where
  "happy_body = \<lparr>req_mood = Some ''Happy'', req_prompt = None, req_style = None, req_colors = None\<rparr>"

definition diary_body :: art_body where
  "diary_body = \<lparr>req_mood = None, req_prompt = Some ''rainy day'', req_style = None,
                  req_colors = None\<rparr>"

definition ctor_body :: art_body where
  "ctor_body = \<lparr>req_mood = None, req_prompt = Some ''constructor'', req_style = None,
                 req_colors = None\<rparr>"

definition blend_body :: collab_body where
  "blend_body = \<lparr>mood1 = Some ''Happy'', mood2 = Some ''Sad'', partnerEmail = None\<rparr>"

definition happy_art :: art where
  "happy_art = \<lparr>art_id = 0, userId = None, mood = ''Happy'',
      imageUrl = ''https://placehold.co/600x450/FFD700/000000?text=Happy+Art'',
      prompt = [], style = ''Abstract'', colors = [], votes = 0, collaborators = [],
      createdAt = 0\<rparr>"

definition diary_art :: art where
  "diary_art = \<lparr>art_id = 0, userId = None, mood = ''Mixed'',
      imageUrl = ''https://placehold.co/600x450/A9A9A9/FFFFFF?text=Generated+Art'',
      prompt = ''rainy day'', style = ''Abstract'', colors = [], votes = 0, collaborators = [],
      createdAt = 0\<rparr>"

definition ctor_art :: art where
  "ctor_art = \<lparr>art_id = 0, userId = None, mood = ''Mixed'',
      imageUrl = ''function Object() { [native code] }'',
      prompt = ''constructor'', style = ''Abstract'', colors = [], votes = 0, collaborators = [],
      createdAt = 0\<rparr>"



section \<open>Properties of \<open>generateArtFromAPI\<close>\<close>

lemma invalid_prompt_JStr: "invalid_prompt (JStr s) = (js_trim s = [])"
  by (auto simp: invalid_prompt_def js_trim_def)

lemma trim_blank: "js_trim ''   '' = []"
  by code_simp

text \<open>
  C3. A prompt that is absent (undefined or null), that is not a string, or that is a
  string with nothing left after trimming makes \<open>generateArtFromAPI\<close> throw the
  invalid-prompt error, with no effect at all: neither the mock delay nor a call to a
  remote service happens.
\<close>

theorem invalid_prompt_rejected:
  assumes "p = JUndefined \<or> p = JNull \<or> (\<forall>s. p \<noteq> JStr s) \<or>
           (\<exists>s. p = JStr s \<and> js_trim s = [])"
  shows "generateArtFromAPI cfg w p = (Inl InvalidPrompt, [])"
  using assms by (cases p) (auto simp: generateArtFromAPI_def invalid_prompt_JStr)

theorem invalid_prompt_rejected_witness:
  "js_trim ''   '' = [] \<and>
   generateArtFromAPI no_config (refusing \<lparr>err_status = None, err_code = None\<rparr>) (JStr ''   '')
     = (Inl InvalidPrompt, [])"
  using invalid_prompt_rejected [of "JStr ''   ''"] trim_blank by blast

lemma default_entry:
  "map_of mockImageUrls ''default'' =
     Some ''https://placehold.co/600x450/A9A9A9/FFFFFF?text=Generated+Art''"
  by (simp add: mockImageUrls_def)

lemma generatedImageUrl_placeholder:
  assumes "cleanedPrompt p \<notin> set object_prototype_members"
  shows "\<exists>u \<in> snd ` set mockImageUrls. generatedImageUrl p = Url u"
proof (cases "map_of mockImageUrls (cleanedPrompt p)")
  case None
  then have "generatedImageUrl p =
      Url ''https://placehold.co/600x450/A9A9A9/FFFFFF?text=Generated+Art''"
    using assms by (simp add: generatedImageUrl_def mockImageUrls_get_def)
  moreover have "(''default'', ''https://placehold.co/600x450/A9A9A9/FFFFFF?text=Generated+Art'')
      \<in> set mockImageUrls"
    using default_entry by (rule map_of_SomeD)
  ultimately show ?thesis by force
next
  case (Some u)
  then have "generatedImageUrl p = Url u"
    by (simp add: generatedImageUrl_def mockImageUrls_get_def)
  moreover from Some have "(cleanedPrompt p, u) \<in> set mockImageUrls"
    by (rule map_of_SomeD)
  ultimately show ?thesis by force
qed

lemma sad_key: "cleanedPrompt ''Sad'' = ''sad''"
  by code_simp

lemma sad_trim: "js_trim ''Sad'' = ''Sad''"
  by code_simp

text \<open>
  C1, as the code has it. The check of the prompt comes first, so the statement is about
  prompts that are not blank. For such a prompt, when one of the five configuration
  values is missing or empty, the function returns what the mock lookup gives for the
  prompt, and its only effect is the timer of 3000 ms: no request to the generation
  provider, no upload. The value returned is one of the eight placeholder URLs of the
  table whenever the key is not the name of a member the table inherits.
\<close>

theorem mock_when_unconfigured:
  assumes "\<not> truthy_str (ART_API_URL cfg) \<or> \<not> truthy_str (ART_API_TOKEN cfg) \<or>
           \<not> truthy_str (cloud_name cfg) \<or> \<not> truthy_str (api_key cfg) \<or>
           \<not> truthy_str (api_secret cfg)"
    and "js_trim p \<noteq> []"
  shows "generateArtFromAPI cfg w (JStr p) = (Inr (generatedImageUrl p), [SetTimeout 3000]) \<and>
         (cleanedPrompt p \<notin> set object_prototype_members \<longrightarrow>
            (\<exists>u \<in> snd ` set mockImageUrls. generatedImageUrl p = Url u))"
proof -
  from assms(1) have "mock_mode cfg"
    by (simp add: mock_mode_def)
  with assms(2) have "generateArtFromAPI cfg w (JStr p) =
      (Inr (generatedImageUrl p), [SetTimeout 3000])"
    by (simp add: generateArtFromAPI_def invalid_prompt_JStr)
  then show ?thesis
    using generatedImageUrl_placeholder by blast
qed

theorem mock_when_unconfigured_witness:
  "\<not> truthy_str (ART_API_URL no_config) \<and> js_trim ''Sad'' \<noteq> [] \<and>
   cleanedPrompt ''Sad'' \<notin> set object_prototype_members \<and>
   generateArtFromAPI no_config (refusing \<lparr>err_status = None, err_code = None\<rparr>) (JStr ''Sad'')
     = (Inr (Url ''https://placehold.co/600x450/87CEEB/FFFFFF?text=Sad+Art''), [SetTimeout 3000])"
proof -
  have a: "\<not> truthy_str (ART_API_URL no_config)"
    by (simp add: no_config_def truthy_str_def)
  have b: "js_trim ''Sad'' \<noteq> []"
    by (simp add: sad_trim)
  have c: "cleanedPrompt ''Sad'' \<notin> set object_prototype_members"
    by (simp add: sad_key object_prototype_members_def)
  have d: "generatedImageUrl ''Sad'' =
      Url ''https://placehold.co/600x450/87CEEB/FFFFFF?text=Sad+Art''"
    by (simp add: generatedImageUrl_def sad_key mockImageUrls_get_def mockImageUrls_def)
  from mock_when_unconfigured
         [of no_config "''Sad''" "refusing \<lparr>err_status = None, err_code = None\<rparr>"] a b c d
  show ?thesis by simp
qed

text \<open>
  C1 as the spec words it, for every prompt string, fails at a blank prompt: with nothing
  configured, the call throws the invalid-prompt error and no timer is set.
\<close>

theorem blank_prompt_not_mocked:
  "\<not> truthy_str (ART_API_URL no_config) \<and>
   generateArtFromAPI no_config (refusing \<lparr>err_status = None, err_code = None\<rparr>) (JStr ''   '')
     = (Inl InvalidPrompt, [])"
  by (simp add: no_config_def truthy_str_def generateArtFromAPI_def invalid_prompt_JStr
        trim_blank)

text \<open>
  C2. On the real path (everything configured, prompt not blank) a failure of the request
  to the generation provider, or of the upload after it, ends the call with one error,
  the classification of what was thrown, and the trace shows each service called once:
  nothing is retried. The classification reads the error in the order of the catch block:
  a response with status 401 is the authentication failure, one with status 429 the
  rate limit, otherwise the codes ECONNREFUSED and ENOTFOUND are the connectivity failure,
  and anything else is the generic generation failure.
\<close>

theorem external_failure_classified:
  assumes "\<not> mock_mode cfg" and "js_trim p \<noteq> []"
  shows "(axios_post w (to_string (ART_API_URL cfg)) p (authorization cfg) = Inl e \<longrightarrow>
            generateArtFromAPI cfg w (JStr p) =
              (Inl (classify e), [AxiosPost (to_string (ART_API_URL cfg)) p (authorization cfg)])) \<and>
         (axios_post w (to_string (ART_API_URL cfg)) p (authorization cfg) = Inr r \<and>
          cloudinary_upload w (dataURI r) ''mood_art_generator'' (upload_tags p) = Inl e \<longrightarrow>
            generateArtFromAPI cfg w (JStr p) =
              (Inl (classify e),
               [AxiosPost (to_string (ART_API_URL cfg)) p (authorization cfg),
                CloudinaryUpload (dataURI r) ''mood_art_generator'' (upload_tags p)])) \<and>
         (err_status e = Some 401 \<longrightarrow> classify e = AuthFailure) \<and>
         (err_status e = Some 429 \<longrightarrow> classify e = RateLimited) \<and>
         (err_status e \<noteq> Some 401 \<and> err_status e \<noteq> Some 429 \<and>
          (err_code e = Some ''ECONNREFUSED'' \<or> err_code e = Some ''ENOTFOUND'') \<longrightarrow>
            classify e = ConnectivityFailure) \<and>
         (err_status e \<noteq> Some 401 \<and> err_status e \<noteq> Some 429 \<and>
          err_code e \<noteq> Some ''ECONNREFUSED'' \<and> err_code e \<noteq> Some ''ENOTFOUND'' \<longrightarrow>
            classify e = GenerationFailure)"
proof -
  from assms have g: "generateArtFromAPI cfg w (JStr p) = real_generation cfg w p"
    by (simp add: generateArtFromAPI_def invalid_prompt_JStr)
  have 1: "axios_post w (to_string (ART_API_URL cfg)) p (authorization cfg) = Inl e \<Longrightarrow>
      real_generation cfg w p =
        (Inl (classify e), [AxiosPost (to_string (ART_API_URL cfg)) p (authorization cfg)])"
    by (simp add: real_generation_def)
  have 2: "axios_post w (to_string (ART_API_URL cfg)) p (authorization cfg) = Inr r \<Longrightarrow>
      cloudinary_upload w (dataURI r) ''mood_art_generator'' (upload_tags p) = Inl e \<Longrightarrow>
      real_generation cfg w p =
        (Inl (classify e),
         [AxiosPost (to_string (ART_API_URL cfg)) p (authorization cfg),
          CloudinaryUpload (dataURI r) ''mood_art_generator'' (upload_tags p)])"
    by (simp add: real_generation_def)
  have 3: "err_status e = Some 401 \<Longrightarrow> classify e = AuthFailure"
    by (simp add: classify_def)
  have 4: "err_status e = Some 429 \<Longrightarrow> classify e = RateLimited"
    by (simp add: classify_def)
  have 5: "err_status e \<noteq> Some 401 \<Longrightarrow> err_status e \<noteq> Some 429 \<Longrightarrow>
      err_code e = Some ''ECONNREFUSED'' \<or> err_code e = Some ''ENOTFOUND'' \<Longrightarrow>
      classify e = ConnectivityFailure"
    by (auto simp: classify_def)
  have 6: "err_status e \<noteq> Some 401 \<Longrightarrow> err_status e \<noteq> Some 429 \<Longrightarrow>
      err_code e \<noteq> Some ''ECONNREFUSED'' \<Longrightarrow> err_code e \<noteq> Some ''ENOTFOUND'' \<Longrightarrow>
      classify e = GenerationFailure"
    by (simp add: classify_def)
  show ?thesis unfolding g using 1 2 3 4 5 6 by blast
qed

lemma full_config_real: "\<not> mock_mode full_config"
  by (simp add: mock_mode_def full_config_def truthy_str_def)

lemma calm_trim: "js_trim ''Calm'' \<noteq> []"
  by code_simp

lemma man_uri: "dataURI \<lparr>content_type = None, resp_data = ''Man''\<rparr> = ''data:image/png;base64,TWFu''"
  by code_simp
lemma calm_tags: "upload_tags ''Calm'' = [''calm'', ''mood_art'']"
  by code_simp

theorem external_failure_classified_witness:
  "\<not> mock_mode full_config \<and> js_trim ''Calm'' \<noteq> [] \<and>
   generateArtFromAPI full_config (refusing \<lparr>err_status = Some 401, err_code = None\<rparr>) (JStr ''Calm'')
     = (Inl AuthFailure, [AxiosPost ''https://models.example/generate'' ''Calm'' ''Bearer t0ken'']) \<and>
   generateArtFromAPI full_config (refusing \<lparr>err_status = Some 429, err_code = None\<rparr>) (JStr ''Calm'')
     = (Inl RateLimited, [AxiosPost ''https://models.example/generate'' ''Calm'' ''Bearer t0ken'']) \<and>
   generateArtFromAPI full_config (refusing \<lparr>err_status = None, err_code = Some ''ENOTFOUND''\<rparr>) (JStr ''Calm'')
     = (Inl ConnectivityFailure, [AxiosPost ''https://models.example/generate'' ''Calm'' ''Bearer t0ken'']) \<and>
   generateArtFromAPI full_config (upload_refusing \<lparr>err_status = Some 500, err_code = None\<rparr>) (JStr ''Calm'')
     = (Inl GenerationFailure,
        [AxiosPost ''https://models.example/generate'' ''Calm'' ''Bearer t0ken'',
         CloudinaryUpload ''data:image/png;base64,TWFu'' ''mood_art_generator'' [''calm'', ''mood_art'']])"
proof -
  note t = external_failure_classified [OF full_config_real calm_trim]
  have u: "to_string (ART_API_URL full_config) = ''https://models.example/generate''"
          "authorization full_config = ''Bearer t0ken''"
    by (simp_all add: full_config_def to_string_def authorization_def)
  have a: "generateArtFromAPI full_config (refusing \<lparr>err_status = Some 401, err_code = None\<rparr>) (JStr ''Calm'')
     = (Inl AuthFailure, [AxiosPost ''https://models.example/generate'' ''Calm'' ''Bearer t0ken''])"
    using t [of "refusing \<lparr>err_status = Some 401, err_code = None\<rparr>" "\<lparr>err_status = Some 401, err_code = None\<rparr>"]
    by (simp add: refusing_def u)
  have b: "generateArtFromAPI full_config (refusing \<lparr>err_status = Some 429, err_code = None\<rparr>) (JStr ''Calm'')
     = (Inl RateLimited, [AxiosPost ''https://models.example/generate'' ''Calm'' ''Bearer t0ken''])"
    using t [of "refusing \<lparr>err_status = Some 429, err_code = None\<rparr>" "\<lparr>err_status = Some 429, err_code = None\<rparr>"]
    by (simp add: refusing_def u)
  have c: "generateArtFromAPI full_config (refusing \<lparr>err_status = None, err_code = Some ''ENOTFOUND''\<rparr>) (JStr ''Calm'')
     = (Inl ConnectivityFailure, [AxiosPost ''https://models.example/generate'' ''Calm'' ''Bearer t0ken''])"
    using t [of "refusing \<lparr>err_status = None, err_code = Some ''ENOTFOUND''\<rparr>" "\<lparr>err_status = None, err_code = Some ''ENOTFOUND''\<rparr>"]
    by (simp add: refusing_def u)
  have d: "generateArtFromAPI full_config (upload_refusing \<lparr>err_status = Some 500, err_code = None\<rparr>) (JStr ''Calm'')
     = (Inl GenerationFailure,
        [AxiosPost ''https://models.example/generate'' ''Calm'' ''Bearer t0ken'',
         CloudinaryUpload ''data:image/png;base64,TWFu'' ''mood_art_generator'' [''calm'', ''mood_art'']])"
    using t [of "upload_refusing \<lparr>err_status = Some 500, err_code = None\<rparr>" "\<lparr>err_status = Some 500, err_code = None\<rparr>"
               "\<lparr>content_type = None, resp_data = ''Man''\<rparr>"]
    by (simp add: upload_refusing_def refusing_def u man_uri calm_tags)
  from full_config_real calm_trim a b c d show ?thesis by blast
qed

section \<open>The mock lookup\<close>

lemma known_moods_distinct: "distinct (map snd mockImageUrls)"
  by code_simp

lemma generatedImageUrl_known:
  assumes "map_of mockImageUrls (cleanedPrompt p) = Some u"
  shows "generatedImageUrl p = Url u"
  using assms by (simp add: generatedImageUrl_def mockImageUrls_get_def)

lemma generatedImageUrl_default:
  assumes "cleanedPrompt p \<notin> fst ` set mockImageUrls"
    and "cleanedPrompt p \<notin> set object_prototype_members"
  shows "generatedImageUrl p =
           Url ''https://placehold.co/600x450/A9A9A9/FFFFFF?text=Generated+Art''"
proof -
  from assms(1) have "map_of mockImageUrls (cleanedPrompt p) = None"
    by (simp only: map_of_eq_None_iff not_False_eq_True)
  with assms(2) show ?thesis
    by (simp add: generatedImageUrl_def mockImageUrls_get_def)
qed

text \<open>
  C5 at the prompt \<open>constructor\<close>. The key is none of the seven moods, so the claim
  expects the default placeholder; the lookup finds the member \<open>constructor\<close> that the
  table inherits, which is truthy, and the function returns it: a function object, not
  a placeholder URL.
\<close>

theorem inherited_member_returned:
  "generateArtFromAPI no_config (refusing \<lparr>err_status = None, err_code = None\<rparr>)
     (JStr ''constructor'')
     = (Inr (Inherited ''constructor''), [SetTimeout 3000])"
proof -
  have k: "cleanedPrompt ''constructor'' = ''constructor''"
    by code_simp
  have t: "js_trim ''constructor'' \<noteq> []"
    by code_simp
  have m: "mock_mode no_config"
    by (simp add: mock_mode_def no_config_def truthy_str_def)
  have g: "generatedImageUrl ''constructor'' = Inherited ''constructor''"
    by (simp add: generatedImageUrl_def k mockImageUrls_get_def mockImageUrls_def
          object_prototype_members_def)
  show ?thesis
    by (simp add: generateArtFromAPI_def invalid_prompt_JStr t m g)
qed

section \<open>Prompt composition\<close>

text \<open>
  When the mood is given (even empty) or the prompt is present, \<open>artPrompt\<close> is the
  composition of the spec; with nothing given at all it stays undefined.
\<close>

lemma artPrompt_follows_rules:
  assumes "req_mood b \<noteq> None \<or> present (req_prompt b)"
  shows "artPrompt b = Some (composed_prompt_spec b)"
  using assms
  by (cases "req_mood b"; cases "req_prompt b"; cases "req_style b"; cases "req_colors b")
     (simp_all add: artPrompt_def composed_prompt_spec_def present_def text_of_def
        truthy_str_def to_string_def Let_def)

lemma artPrompt_nothing:
  assumes "req_mood b = None" and "\<not> present (req_prompt b)" and "\<not> present (req_style b)"
    and "req_colors b = None \<or> req_colors b = Some []"
  shows "artPrompt b = None"
  using assms by (auto simp: artPrompt_def present_def truthy_str_def Let_def)

lemma spec_example:
  "artPrompt \<lparr>req_mood = Some ''Happy'', req_prompt = Some [], req_style = Some ''Abstract'',
              req_colors = Some [''red'', ''blue'']\<rparr>
   = Some ''Happy, in Abstract style, with colors red, blue''"
  by (simp add: artPrompt_def truthy_str_def to_string_def)

text \<open>
  C4 at a body that has a style and neither mood nor prompt. The rules give the style
  clause alone; the code appends it to the undefined \<open>artPrompt\<close>, and the prompt sent
  to the generator begins with the text \<open>undefined\<close>.
\<close>

theorem artPrompt_undefined_text:
  "artPrompt \<lparr>req_mood = None, req_prompt = None, req_style = Some ''Abstract'',
              req_colors = None\<rparr>
     = Some ''undefined, in Abstract style'' \<and>
   composed_prompt_spec \<lparr>req_mood = None, req_prompt = None, req_style = Some ''Abstract'',
              req_colors = None\<rparr>
     = '', in Abstract style''"
  by (simp add: artPrompt_def composed_prompt_spec_def present_def text_of_def truthy_str_def
        to_string_def)

section \<open>Evaluations on the examples\<close>

lemma happy_key: "cleanedPrompt ''Happy'' = ''happy''"
  by code_simp

lemma happy_trim: "js_trim ''Happy'' = ''Happy''"
  by code_simp

lemma happy_generated:
  "generateArtFromAPI no_config w (JStr ''Happy'') =
     (Inr (Url ''https://placehold.co/600x450/FFD700/000000?text=Happy+Art''), [SetTimeout 3000])"
proof -
  have m: "mock_mode no_config"
    by (simp add: mock_mode_def no_config_def truthy_str_def)
  have g: "generatedImageUrl ''Happy'' = Url ''https://placehold.co/600x450/FFD700/000000?text=Happy+Art''"
    by (simp add: generatedImageUrl_def happy_key mockImageUrls_get_def mockImageUrls_def)
  show ?thesis
    by (simp add: generateArtFromAPI_def invalid_prompt_JStr happy_trim m g)
qed

lemma happy_prompt: "to_jsval (artPrompt happy_body) = JStr ''Happy''"
  by (simp add: artPrompt_def happy_body_def truthy_str_def to_jsval_def)

lemma happy_posted:
  "post_art no_config (refusing e) None happy_body [] =
     (\<lparr>status = 201, body = ArtJson happy_art\<rparr>, [happy_art], [SetTimeout 3000])"
  unfolding post_art_def happy_prompt happy_generated
  by (simp add: Let_def cast_imageUrl_def new_Art_def
        userId_of_def fresh_id_def happy_body_def truthy_str_def to_string_def happy_trim
        save_new_def validate_def mood_errors_def mood_values_def imageUrl_errors_def
        happy_art_def refusing_def)

lemma happy_refused:
  "fst (generateArtFromAPI full_config unauthorized (JStr ''Happy'')) = Inl AuthFailure"
  by (simp add: generateArtFromAPI_def invalid_prompt_JStr happy_trim full_config_real
        real_generation_def unauthorized_def refusing_def classify_def)

lemma blend_prompt:
  "collab_prompt (to_string (mood1 blend_body)) (to_string (mood2 blend_body)) =
     ''Collaborative art blending Happy and Sad''"
  by (simp add: collab_prompt_def blend_body_def to_string_def)

lemma blend_trim: "js_trim ''Collaborative art blending Happy and Sad'' \<noteq> []"
  by code_simp

lemma blend_refused:
  "fst (generateArtFromAPI full_config unauthorized
         (JStr ''Collaborative art blending Happy and Sad'')) = Inl AuthFailure"
  by (simp add: generateArtFromAPI_def invalid_prompt_JStr blend_trim full_config_real
        real_generation_def unauthorized_def refusing_def classify_def)

lemma mixed_trim: "js_trim ''Mixed'' = ''Mixed''"
  by code_simp

lemma diary_key: "cleanedPrompt ''rainy day'' = ''rainy day''"
  by code_simp

lemma diary_trim: "js_trim ''rainy day'' = ''rainy day''"
  by code_simp

lemma diary_prompt: "to_jsval (artPrompt diary_body) = JStr ''rainy day''"
  by (simp add: artPrompt_def diary_body_def truthy_str_def to_jsval_def to_string_def)

lemma diary_generated:
  "generateArtFromAPI no_config w (JStr ''rainy day'') =
     (Inr (Url ''https://placehold.co/600x450/A9A9A9/FFFFFF?text=Generated+Art''),
      [SetTimeout 3000])"
proof -
  have m: "mock_mode no_config"
    by (simp add: mock_mode_def no_config_def truthy_str_def)
  have g: "generatedImageUrl ''rainy day'' =
      Url ''https://placehold.co/600x450/A9A9A9/FFFFFF?text=Generated+Art''"
    by (simp add: generatedImageUrl_def diary_key mockImageUrls_get_def mockImageUrls_def
          object_prototype_members_def)
  show ?thesis
    by (simp add: generateArtFromAPI_def invalid_prompt_JStr diary_trim m g)
qed

lemma diary_posted:
  "post_art no_config (refusing e) None diary_body [] =
     (\<lparr>status = 201, body = ArtJson diary_art\<rparr>, [diary_art], [SetTimeout 3000])"
  unfolding post_art_def diary_prompt diary_generated
  by (simp add: Let_def cast_imageUrl_def new_Art_def
        userId_of_def fresh_id_def diary_body_def truthy_str_def to_string_def mixed_trim
        diary_trim save_new_def validate_def mood_errors_def mood_values_def imageUrl_errors_def
        diary_art_def refusing_def)

lemma ctor_key: "cleanedPrompt ''constructor'' = ''constructor''"
  by code_simp

lemma ctor_trim: "js_trim ''constructor'' = ''constructor''"
  by code_simp

lemma ctor_prompt: "to_jsval (artPrompt ctor_body) = JStr ''constructor''"
  by (simp add: artPrompt_def ctor_body_def truthy_str_def to_jsval_def to_string_def)

lemma ctor_generated:
  "generateArtFromAPI no_config w (JStr ''constructor'') =
     (Inr (Inherited ''constructor''), [SetTimeout 3000])"
proof -
  have m: "mock_mode no_config"
    by (simp add: mock_mode_def no_config_def truthy_str_def)
  have g: "generatedImageUrl ''constructor'' = Inherited ''constructor''"
    by (simp add: generatedImageUrl_def ctor_key mockImageUrls_get_def mockImageUrls_def
          object_prototype_members_def)
  show ?thesis
    by (simp add: generateArtFromAPI_def invalid_prompt_JStr ctor_trim m g)
qed










section \<open>Properties of the routes\<close>

subsection \<open>No document without an image\<close>

lemma post_art_generation_failed:
  assumes "fst (generateArtFromAPI cfg w (to_jsval (artPrompt b))) = Inl err"
  shows "post_art cfg w user b arts =
           (\<lparr>status = 500, body = Msg (message err)\<rparr>, arts,
            snd (generateArtFromAPI cfg w (to_jsval (artPrompt b))))"
  using assms
  by (cases "generateArtFromAPI cfg w (to_jsval (artPrompt b))") (simp add: post_art_def)

lemma post_collaborate_generation_failed:
  assumes "fst (generateArtFromAPI cfg w
             (JStr (collab_prompt (to_string (mood1 c)) (to_string (mood2 c))))) = Inl err"
  shows "collection_after (post_collaborate cfg w user c arts) = arts"
  using assms
  by (cases "generateArtFromAPI cfg w
               (JStr (collab_prompt (to_string (mood1 c)) (to_string (mood2 c))))")
     (simp add: post_collaborate_def collection_after_def Let_def)

text \<open>
  When the generation call of a request throws, the request stores nothing: the main
  route answers 500 with the message of the error and leaves the collection as it was,
  and so does the collaboration route. For the main route, a collection that changed
  means that the generation call had returned a value.
\<close>

lemma generation_failure_stores_nothing:
  "(fst (generateArtFromAPI cfg w (to_jsval (artPrompt b))) = Inl err \<longrightarrow>
      response_of (post_art cfg w user b arts) = \<lparr>status = 500, body = Msg (message err)\<rparr> \<and>
      collection_after (post_art cfg w user b arts) = arts) \<and>
   (fst (generateArtFromAPI cfg w
          (JStr (collab_prompt (to_string (mood1 c)) (to_string (mood2 c))))) = Inl err \<longrightarrow>
      collection_after (post_collaborate cfg w user c arts) = arts) \<and>
   (collection_after (post_art cfg w user b arts) \<noteq> arts \<longrightarrow>
      (\<exists>g. fst (generateArtFromAPI cfg w (to_jsval (artPrompt b))) = Inr g))"
proof (intro conjI impI)
  assume f: "fst (generateArtFromAPI cfg w (to_jsval (artPrompt b))) = Inl err"
  show "response_of (post_art cfg w user b arts) = \<lparr>status = 500, body = Msg (message err)\<rparr>"
    by (simp add: post_art_generation_failed [OF f] response_of_def)
  show "collection_after (post_art cfg w user b arts) = arts"
    by (simp add: post_art_generation_failed [OF f] collection_after_def)
next
  assume "fst (generateArtFromAPI cfg w
          (JStr (collab_prompt (to_string (mood1 c)) (to_string (mood2 c))))) = Inl err"
  then show "collection_after (post_collaborate cfg w user c arts) = arts"
    by (rule post_collaborate_generation_failed)
next
  assume n: "collection_after (post_art cfg w user b arts) \<noteq> arts"
  show "\<exists>g. fst (generateArtFromAPI cfg w (to_jsval (artPrompt b))) = Inr g"
  proof (cases "fst (generateArtFromAPI cfg w (to_jsval (artPrompt b)))")
    case (Inl e)
    from post_art_generation_failed [OF Inl] n show ?thesis
      by (simp add: collection_after_def)
  next
    case (Inr g)
    then show ?thesis by blast
  qed
qed

lemma generation_failure_example:
  "fst (generateArtFromAPI full_config unauthorized (to_jsval (artPrompt happy_body)))
     = Inl AuthFailure \<and>
   response_of (post_art full_config unauthorized None happy_body [happy_art])
     = \<lparr>status = 500,
        body = Msg ''AI API authentication failed. Check your ART_API_TOKEN.''\<rparr> \<and>
   collection_after (post_art full_config unauthorized None happy_body [happy_art])
     = [happy_art] \<and>
   fst (generateArtFromAPI full_config unauthorized
         (JStr (collab_prompt (to_string (mood1 blend_body)) (to_string (mood2 blend_body)))))
     = Inl AuthFailure \<and>
   collection_after (post_collaborate full_config unauthorized None blend_body [happy_art])
     = [happy_art] \<and>
   collection_after (post_art no_config unauthorized None happy_body []) \<noteq> [] \<and>
   fst (generateArtFromAPI no_config unauthorized (to_jsval (artPrompt happy_body)))
     = Inr (Url ''https://placehold.co/600x450/FFD700/000000?text=Happy+Art'')"
proof -
  have h1: "fst (generateArtFromAPI full_config unauthorized (to_jsval (artPrompt happy_body)))
      = Inl AuthFailure"
    by (simp add: happy_prompt happy_refused)
  have h2: "fst (generateArtFromAPI full_config unauthorized
         (JStr (collab_prompt (to_string (mood1 blend_body)) (to_string (mood2 blend_body)))))
      = Inl AuthFailure"
    by (simp add: blend_prompt blend_refused)
  have h3: "collection_after (post_art no_config unauthorized None happy_body []) \<noteq> []"
    by (simp add: unauthorized_def happy_posted collection_after_def)
  note t1 = generation_failure_stores_nothing
    [where cfg = full_config and w = unauthorized and b = happy_body and err = AuthFailure
       and user = None and arts = "[happy_art]" and c = blend_body]
  note t2 = generation_failure_stores_nothing
    [where cfg = no_config and w = unauthorized and b = happy_body and user = None
       and arts = "[]"]
  from t2 h3 obtain g where
    "fst (generateArtFromAPI no_config unauthorized (to_jsval (artPrompt happy_body))) = Inr g"
    by blast
  then have h4: "fst (generateArtFromAPI no_config unauthorized (to_jsval (artPrompt happy_body)))
      = Inr (Url ''https://placehold.co/600x450/FFD700/000000?text=Happy+Art'')"
    by (simp add: happy_prompt happy_generated)
  from t1 h1 h2 h3 h4 show ?thesis
    by simp
qed

text \<open>
  C6 at the body \<open>{prompt: 'constructor'}\<close> with nothing configured. The claim has a
  record created only after the generation returned an image URL. Here the generation
  returns the \<open>Object\<close> function that the mock table inherits, not a URL; the route
  goes on, Mongoose casts the function to its text, and the route answers 201 with a
  stored document whose \<open>imageUrl\<close> is that text.
\<close>

theorem inherited_member_stored:
  "generateArtFromAPI no_config stringifying (to_jsval (artPrompt ctor_body))
     = (Inr (Inherited ''constructor''), [SetTimeout 3000]) \<and>
   post_art no_config stringifying None ctor_body []
     = (\<lparr>status = 201, body = ArtJson ctor_art\<rparr>, [ctor_art], [SetTimeout 3000])"
proof -
  have g: "generateArtFromAPI no_config stringifying (to_jsval (artPrompt ctor_body))
      = (Inr (Inherited ''constructor''), [SetTimeout 3000])"
    by (simp add: ctor_prompt ctor_generated)
  have p: "post_art no_config stringifying None ctor_body []
      = (\<lparr>status = 201, body = ArtJson ctor_art\<rparr>, [ctor_art], [SetTimeout 3000])"
    unfolding post_art_def g
    by (simp add: Let_def cast_imageUrl_def new_Art_def userId_of_def fresh_id_def
          ctor_body_def truthy_str_def mixed_trim ctor_trim save_new_def validate_def
          mood_errors_def mood_values_def imageUrl_errors_def ctor_art_def stringifying_def
          refusing_def)
  from g p show ?thesis ..
qed

subsection \<open>The mood of what is stored\<close>

lemma save_new_Inr:
  assumes "save_new a img arts = Inr arts'"
  shows "arts' = arts @ [a] \<and> mood a \<in> set mood_values"
proof -
  from assms have v: "validate a img = []" and e: "arts' = arts @ [a]"
    by (auto simp: save_new_def split: if_splits)
  from v have "mood_errors (mood a) = []"
    by (simp add: validate_def split: sum.splits)
  then have "mood a \<in> set mood_values"
    by (simp add: mood_errors_def split: if_splits)
  with e show ?thesis by simp
qed

lemma save_existing_Inr:
  assumes "save_existing a arts = Inr arts'"
  shows "arts' = set_votes (art_id a) (votes a) arts \<and> mood a \<in> set mood_values"
proof -
  from assms have v: "validate a (Inr (imageUrl a)) = []"
    and e: "arts' = set_votes (art_id a) (votes a) arts"
    by (auto simp: save_existing_def split: if_splits)
  from v have "mood_errors (mood a) = []"
    by (simp add: validate_def)
  then have "mood a \<in> set mood_values"
    by (simp add: mood_errors_def split: if_splits)
  with e show ?thesis by simp
qed

lemma set_set_votes:
  "findById arts i = Some b \<Longrightarrow> set (set_votes i v arts) \<subseteq> insert (b\<lparr>votes := v\<rparr>) (set arts)"
  by (induction arts) (auto simp: findById_def split: if_splits)





lemma findById_id: "findById arts i = Some a \<Longrightarrow> art_id a = i"
  by (auto simp: findById_def find_Some_iff)

lemma post_art_written: "written arts (collection_after (post_art cfg w user b arts))"
proof (cases "generateArtFromAPI cfg w (to_jsval (artPrompt b))")
  case (Pair result events)
  show ?thesis
  proof (cases result)
    case (Inl err)
    with Pair show ?thesis
      by (simp add: post_art_def collection_after_def written_def)
  next
    case (Inr generated)
    with Pair show ?thesis
      by (auto simp: post_art_def collection_after_def written_def Let_def
            dest: save_new_Inr split: sum.splits)
  qed
qed

lemma post_collaborate_written: "written arts (collection_after (post_collaborate cfg w user c arts))"
proof (cases "generateArtFromAPI cfg w
               (JStr (collab_prompt (to_string (mood1 c)) (to_string (mood2 c))))")
  case (Pair result events)
  show ?thesis
  proof (cases result)
    case (Inl err)
    with Pair show ?thesis
      by (simp add: post_collaborate_def collection_after_def written_def Let_def)
  next
    case (Inr generated)
    with Pair show ?thesis
      by (auto simp: post_collaborate_def collection_after_def written_def Let_def
            dest: save_new_Inr split: sum.splits)
  qed
qed

lemma vote_find_holds:
  assumes "vote_find w s arts = VoteHolds a"
  shows "\<exists>i. castObjectId w s = Some i \<and> findById arts i = Some a \<and> art_id a = i"
  using assms
  by (auto simp: vote_find_def Art_findById_def findById_id split: option.splits)

lemma vote_save_written:
  assumes "findById arts (art_id a) = Some a"
  shows "written arts (collection_after (vote_save a arts))"
proof (cases "save_existing (a\<lparr>votes := js_plus_one (votes a)\<rparr>) arts")
  case (Inl err)
  then show ?thesis
    by (simp add: vote_save_def collection_after_def written_def)
next
  case (Inr arts')
  from save_existing_Inr [OF Inr]
  have "arts' = set_votes (art_id a) (js_plus_one (votes a)) arts"
    and "mood a \<in> set mood_values" by simp_all
  with assms have "written arts arts'"
    unfolding written_def by blast
  with Inr show ?thesis
    by (simp add: vote_save_def collection_after_def)
qed

lemma post_vote_written: "written arts (collection_after (post_vote w s arts))"
proof (cases "vote_find w s arts")
  case (VoteAnswered r)
  then show ?thesis
    by (simp add: post_vote_def collection_after_def written_def)
next
  case (VoteHolds a)
  from vote_find_holds [OF this] have "findById arts (art_id a) = Some a"
    by auto
  then have "written arts (collection_after (vote_save a arts))"
    by (rule vote_save_written)
  with VoteHolds show ?thesis
    by (simp add: post_vote_def)
qed

lemma handle_written: "written arts (collection_after (handle cfg w user opn arts))"
proof (cases opn)
  case (PostArt b)
  then show ?thesis by (simp add: handle_def post_art_written)
next
  case GetHistory
  then show ?thesis by (simp add: handle_def get_history_def collection_after_def written_def)
next
  case (PostVote i)
  then show ?thesis by (simp add: handle_def post_vote_written)
next
  case (GetEvolution m)
  then show ?thesis by (simp add: handle_def get_evolution_def collection_after_def written_def)
next
  case (PostCollaborate c)
  then show ?thesis by (simp add: handle_def post_collaborate_written)
qed

lemma router_written: "written arts (collection_after (router cfg w req arts))"
proof (cases "optionalAuth w (token req)")
  case (Next user)
  then show ?thesis by (simp add: router_def handle_written)
next
  case (Respond r)
  then show ?thesis by (simp add: router_def collection_after_def written_def)
qed

text \<open>
  C7. Whatever the request, a document that is in the collection afterwards and was not
  there before has its mood in the enum Happy, Sad, Calm, Excited, Angry, Inspired, Mixed.
  This covers the collaboration route as every other.
\<close>

theorem persisted_mood_in_enum:
  assumes "a \<in> set (collection_after (router cfg w req arts))" and "a \<notin> set arts"
  shows "mood a \<in> set mood_values"
proof -
  have "written arts (collection_after (router cfg w req arts))"
    by (rule router_written)
  then consider "collection_after (router cfg w req arts) = arts"
    | n where "mood n \<in> set mood_values" "collection_after (router cfg w req arts) = arts @ [n]"
    | b where "findById arts (art_id b) = Some b" "mood b \<in> set mood_values"
        "collection_after (router cfg w req arts) =
           set_votes (art_id b) (js_plus_one (votes b)) arts"
    unfolding written_def by blast
  then show ?thesis
  proof cases
    case 1
    with assms show ?thesis by simp
  next
    case 2
    with assms show ?thesis by auto
  next
    case 3
    with assms set_set_votes [of arts "art_id b" b "js_plus_one (votes b)"]
    have "a = b\<lparr>votes := js_plus_one (votes b)\<rparr>" by auto
    with 3 show ?thesis by simp
  qed
qed

theorem persisted_mood_in_enum_witness:
  "happy_art \<in> set (collection_after
      (router no_config unauthorized \<lparr>token = None, operation = PostArt happy_body\<rparr> [])) \<and>
   happy_art \<notin> set [] \<and> mood happy_art \<in> set mood_values"
proof -
  have r: "router no_config w \<lparr>token = None, operation = PostArt happy_body\<rparr> []
      = post_art no_config w None happy_body []" for w
    by (simp add: router_def optionalAuth_def truthy_str_def handle_def)
  have h: "happy_art \<in> set (collection_after
      (router no_config unauthorized \<lparr>token = None, operation = PostArt happy_body\<rparr> []))"
    by (simp add: r unauthorized_def happy_posted collection_after_def)
  from persisted_mood_in_enum [OF h] h show ?thesis
    by simp
qed

text \<open>
  The collaboration route itself never stores a document: its mood joins the two moods
  with an ampersand, which trimming keeps and no value of the enum contains, so
  validation fails on every save.
\<close>

lemma in_dropWhile: "x \<in> set xs \<Longrightarrow> \<not> P x \<Longrightarrow> x \<in> set (dropWhile P xs)"
  by (induction xs) auto

lemma in_js_trim: "x \<in> set s \<Longrightarrow> \<not> js_whitespace x \<Longrightarrow> x \<in> set (js_trim s)"
  by (simp add: js_trim_def in_dropWhile)

lemma ampersand_not_a_mood:
  assumes "CHR ''&'' \<in> set m"
  shows "js_trim m \<notin> set mood_values"
proof
  assume m: "js_trim m \<in> set mood_values"
  have "\<not> js_whitespace CHR ''&''"
    by (simp add: js_whitespace_def)
  with assms have "CHR ''&'' \<in> set (js_trim m)"
    by (intro in_js_trim)
  moreover have "CHR ''&'' \<notin> set x" if "x \<in> set mood_values" for x
    using that by (auto simp: mood_values_def)
  ultimately show False
    using m by blast
qed

lemma ampersand_not_saved:
  assumes "CHR ''&'' \<in> set m"
  shows "save_new (new_Art w i uid m url p st cs collabs) img arts \<noteq> Inr arts'"
proof
  assume "save_new (new_Art w i uid m url p st cs collabs) img arts = Inr arts'"
  from save_new_Inr [OF this] have "js_trim m \<in> set mood_values"
    by (simp add: new_Art_def)
  with ampersand_not_a_mood [OF assms] show False by blast
qed

lemma collaborate_never_persists:
  "collection_after (post_collaborate cfg w user c arts) = arts"
proof (cases "generateArtFromAPI cfg w
               (JStr (collab_prompt (to_string (mood1 c)) (to_string (mood2 c))))")
  case (Pair result events)
  show ?thesis
  proof (cases result)
    case (Inl err)
    with Pair show ?thesis
      by (simp add: post_collaborate_def collection_after_def Let_def)
  next
    case (Inr generated)
    with Pair show ?thesis
      by (auto simp: post_collaborate_def collection_after_def Let_def ampersand_not_saved
            split: sum.splits)
  qed
qed

subsection \<open>Votes\<close>







subsection \<open>Authentication\<close>

text \<open>
  C9. Behind \<open>optionalAuth\<close>, a request without a token or with a token that does not
  verify is passed on with no user: the router runs the handler as for an anonymous
  request. The middleware of middleware/auth.js answers 401 in these cases, with one
  message for a missing token, one for an expired token and one for an invalid token.
\<close>

theorem optional_auth_proceeds_anonymous:
  "(\<not> truthy_str tok \<or> (\<exists>n. jwt_verify w (to_string tok) = Inl n) \<longrightarrow>
      optionalAuth w tok = Next None \<and>
      router cfg w \<lparr>token = tok, operation = opn\<rparr> arts = handle cfg w None opn arts \<and>
      userId_of None = None) \<and>
   (\<not> truthy_str tok \<longrightarrow>
      auth w tok = Respond \<lparr>status = 401,
        body = Msg ''No authentication token provided. Authorization denied.''\<rparr>) \<and>
   (truthy_str tok \<and> jwt_verify w (to_string tok) = Inl ''TokenExpiredError'' \<longrightarrow>
      auth w tok = Respond \<lparr>status = 401,
        body = Msg ''Authentication token has expired. Please log in again.''\<rparr>) \<and>
   (truthy_str tok \<and> jwt_verify w (to_string tok) = Inl ''JsonWebTokenError'' \<longrightarrow>
      auth w tok = Respond \<lparr>status = 401,
        body = Msg ''Invalid authentication token. Authorization denied.''\<rparr>)"
proof (intro conjI impI)
  assume h: "\<not> truthy_str tok \<or> (\<exists>n. jwt_verify w (to_string tok) = Inl n)"
  then show o: "optionalAuth w tok = Next None"
    by (auto simp: optionalAuth_def)
  then show "router cfg w \<lparr>token = tok, operation = opn\<rparr> arts = handle cfg w None opn arts"
    by (simp add: router_def)
  show "userId_of None = None"
    by (simp add: userId_of_def)
next
  assume "\<not> truthy_str tok"
  then show "auth w tok = Respond \<lparr>status = 401,
        body = Msg ''No authentication token provided. Authorization denied.''\<rparr>"
    by (simp add: auth_def)
next
  assume "truthy_str tok \<and> jwt_verify w (to_string tok) = Inl ''TokenExpiredError''"
  then show "auth w tok = Respond \<lparr>status = 401,
        body = Msg ''Authentication token has expired. Please log in again.''\<rparr>"
    by (simp add: auth_def)
next
  assume "truthy_str tok \<and> jwt_verify w (to_string tok) = Inl ''JsonWebTokenError''"
  then show "auth w tok = Respond \<lparr>status = 401,
        body = Msg ''Invalid authentication token. Authorization denied.''\<rparr>"
    by (simp add: auth_def)
qed

theorem optional_auth_proceeds_anonymous_witness:
  "\<not> truthy_str None \<and>
   optionalAuth unauthorized None = Next None \<and>
   router no_config unauthorized \<lparr>token = None, operation = GetHistory\<rparr> [happy_art]
     = handle no_config unauthorized None GetHistory [happy_art] \<and>
   auth unauthorized None = Respond \<lparr>status = 401,
     body = Msg ''No authentication token provided. Authorization denied.''\<rparr> \<and>
   truthy_str (Some ''stale'') \<and>
   jwt_verify unauthorized (to_string (Some ''stale'')) = Inl ''JsonWebTokenError'' \<and>
   optionalAuth unauthorized (Some ''stale'') = Next None \<and>
   auth unauthorized (Some ''stale'') = Respond \<lparr>status = 401,
     body = Msg ''Invalid authentication token. Authorization denied.''\<rparr> \<and>
   jwt_verify expired_world (to_string (Some ''stale'')) = Inl ''TokenExpiredError'' \<and>
   auth expired_world (Some ''stale'') = Respond \<lparr>status = 401,
     body = Msg ''Authentication token has expired. Please log in again.''\<rparr>"
proof -
  have h1: "\<not> truthy_str None"
    by (simp add: truthy_str_def)
  have h2: "truthy_str (Some ''stale'')"
    by (simp add: truthy_str_def)
  have h3: "jwt_verify unauthorized (to_string (Some ''stale'')) = Inl ''JsonWebTokenError''"
    by (simp add: unauthorized_def refusing_def)
  have h4: "jwt_verify expired_world (to_string (Some ''stale'')) = Inl ''TokenExpiredError''"
    by (simp add: expired_world_def refusing_def)
  note t1 = optional_auth_proceeds_anonymous
    [where tok = None and w = unauthorized and cfg = no_config and opn = GetHistory
       and arts = "[happy_art]"]
  note t2 = optional_auth_proceeds_anonymous
    [where tok = "Some ''stale''" and w = unauthorized and cfg = no_config and opn = GetHistory
       and arts = "[happy_art]"]
  note t3 = optional_auth_proceeds_anonymous
    [where tok = "Some ''stale''" and w = expired_world and cfg = no_config and opn = GetHistory
       and arts = "[happy_art]"]
  from t1 h1 have a: "optionalAuth unauthorized None = Next None"
    "router no_config unauthorized \<lparr>token = None, operation = GetHistory\<rparr> [happy_art]
       = handle no_config unauthorized None GetHistory [happy_art]"
    "auth unauthorized None = Respond \<lparr>status = 401,
       body = Msg ''No authentication token provided. Authorization denied.''\<rparr>"
    by blast+
  from t2 h2 h3 have b: "optionalAuth unauthorized (Some ''stale'') = Next None"
    "auth unauthorized (Some ''stale'') = Respond \<lparr>status = 401,
       body = Msg ''Invalid authentication token. Authorization denied.''\<rparr>"
    by blast+
  from t3 h2 h4 have c: "auth expired_world (Some ''stale'') = Respond \<lparr>status = 401,
       body = Msg ''Authentication token has expired. Please log in again.''\<rparr>"
    by blast
  from h1 h2 h3 h4 a b c show ?thesis
    by blast
qed

subsection \<open>The default mood\<close>

text \<open>
  C10. When the body has no mood and the main route answers 201, the document it stored
  and returned has the mood \<open>Mixed\<close>.
\<close>

theorem mood_defaults_to_Mixed:
  assumes "req_mood b = None"
    and "post_art cfg w user b arts = (\<lparr>status = 201, body = ArtJson a\<rparr>, arts', events)"
  shows "mood a = ''Mixed'' \<and> arts' = arts @ [a]"
proof (cases "generateArtFromAPI cfg w (to_jsval (artPrompt b))")
  case (Pair result ev)
  show ?thesis
  proof (cases result)
    case (Inl err)
    with Pair assms(2) show ?thesis
      by (simp add: post_art_def)
  next
    case (Inr generated)
    let ?casted = "cast_imageUrl w generated"
    let ?new = "new_Art w (fresh_id arts) (userId_of user) ''Mixed''
                  (case ?casted of Inl castError \<Rightarrow> [] | Inr url \<Rightarrow> url)
                  (req_prompt b) (req_style b) (req_colors b) []"
    from assms(1) Pair Inr have p: "post_art cfg w user b arts =
        (case save_new ?new ?casted arts of
           Inl errors \<Rightarrow> (\<lparr>status = 400, body = Msg (join '', '' (map snd errors))\<rparr>, arts, ev)
         | Inr arts' \<Rightarrow> (\<lparr>status = 201, body = ArtJson ?new\<rparr>, arts', ev))"
      by (simp add: post_art_def Let_def truthy_str_def)
    show ?thesis
    proof (cases "save_new ?new ?casted arts")
      case (Inl errors)
      with p assms(2) show ?thesis by simp
    next
      case (Inr saved)
      with p assms(2) have "a = ?new" and "arts' = saved" by simp_all
      moreover from save_new_Inr [OF Inr] have "saved = arts @ [?new]" by simp
      moreover have "mood ?new = ''Mixed''"
        by (simp add: new_Art_def mixed_trim)
      ultimately show ?thesis by simp
    qed
  qed
qed

theorem mood_defaults_to_Mixed_witness:
  "req_mood diary_body = None \<and>
   post_art no_config unauthorized None diary_body [] =
     (\<lparr>status = 201, body = ArtJson diary_art\<rparr>, [diary_art], [SetTimeout 3000]) \<and>
   mood diary_art = ''Mixed''"
proof -
  have h1: "req_mood diary_body = None"
    by (simp add: diary_body_def)
  have h2: "post_art no_config unauthorized None diary_body [] =
     (\<lparr>status = 201, body = ArtJson diary_art\<rparr>, [diary_art], [SetTimeout 3000])"
    by (simp add: unauthorized_def diary_posted)
  from mood_defaults_to_Mixed [OF h1 h2] h1 h2 show ?thesis
    by simp
qed

end
